theory Spec2Isabelle
  imports Complex_Main "HOL-Library.Sublist"
begin

section \<open>Data model (types.ts)\<close>

text \<open>
  The interfaces of \<^verbatim>\<open>types.ts\<close> become records. Field names are global in
  HOL, so a field name that two interfaces share carries a prefix: \<^verbatim>\<open>id\<close> and
  \<^verbatim>\<open>name\<close> everywhere, \<^verbatim>\<open>confidence\<close> and \<^verbatim>\<open>emotion\<close> in the scan
  result; \<^verbatim>\<open>notes\<close> is \<open>record_notes\<close>. An optional field
  (\<^verbatim>\<open>assignedClass?\<close>, \<^verbatim>\<open>emotion?\<close>, \<^verbatim>\<open>notes?\<close>) and a nullable one
  (\<^verbatim>\<open>matchId\<close>) is an \<open>option\<close>. The confidence is only copied, never
  computed with, so a real number stands for the JavaScript number.
\<close>

record Student =
  student_id :: string
  student_name :: string
  rollNumber :: string
  classSection :: string
  photoUrl :: string
  registeredAt :: string

datatype Role = admin | teacher

record User =
  username :: string
  password :: string
  user_name :: string
  role :: Role
  assignedClass :: "string option"

datatype AttendanceStatus = PRESENT | ABSENT | PROXY_ATTEMPT

record AttendanceRecord =
  record_id :: string
  studentId :: string
  studentName :: string
  timestamp :: string
  date :: string
  status :: AttendanceStatus
  confidence :: real
  emotion :: "string option"
  record_notes :: "string option"

record ScanResult =
  matchId :: "string option"
  result_confidence :: real
  isRealPerson :: bool
  result_emotion :: string
  description :: string

text \<open>JavaScript truthiness of a string and of a string that may be null or undefined.\<close>

definition truthy :: "string \<Rightarrow> bool" where
  "truthy s = (s \<noteq> [])"

definition truthy_opt :: "string option \<Rightarrow> bool" where
  "truthy_opt x = (case x of None \<Rightarrow> False | Some s \<Rightarrow> truthy s)"

section \<open>The attendance ledger (App.tsx, handleMarkAttendance)\<close>

text \<open>
  \<^verbatim>\<open>new Date(`1970/01/01 ${ts}`).getTime()\<close> is the runtime's parser of a
  non-ISO date string: what it accepts is not fixed by the repository, so the parser is a
  parameter \<open>parse\<close>, which returns the milliseconds since the epoch, or \<open>None\<close>
  for an Invalid Date, whose \<^verbatim>\<open>getTime()\<close> is NaN. The three number operations
  of the test propagate NaN as JavaScript does, and a comparison with NaN is false.
\<close>

type_synonym jsnum = "int option"

definition getTime :: "(string \<Rightarrow> jsnum) \<Rightarrow> string \<Rightarrow> jsnum" where
  "getTime parse ts = parse (''1970/01/01 '' @ ts)"

definition js_minus :: "jsnum \<Rightarrow> jsnum \<Rightarrow> jsnum" where
  "js_minus a b = (case a of None \<Rightarrow> None
     | Some x \<Rightarrow> (case b of None \<Rightarrow> None | Some y \<Rightarrow> Some (x - y)))"

definition js_abs :: "jsnum \<Rightarrow> jsnum" where
  "js_abs a = (case a of None \<Rightarrow> None | Some x \<Rightarrow> Some \<bar>x\<bar>)"

definition js_less :: "jsnum \<Rightarrow> int \<Rightarrow> bool" where
  "js_less a k = (case a of None \<Rightarrow> False | Some x \<Rightarrow> x < k)"

text \<open>The predicate handed to \<^verbatim>\<open>records.find\<close>.\<close>

definition isRecent ::
  "(string \<Rightarrow> jsnum) \<Rightarrow> AttendanceRecord \<Rightarrow> AttendanceRecord \<Rightarrow> bool" where
  "isRecent parse record r =
     (studentId r = studentId record \<and> date r = date record \<and>
      js_less (js_abs (js_minus (getTime parse (timestamp r))
                                (getTime parse (timestamp record)))) 60000)"

text \<open>
  \<^verbatim>\<open>handleMarkAttendance\<close> returns nothing; its effect is the new value of the
  \<^verbatim>\<open>records\<close> state, which the model returns. The handler reads two lists:
  \<open>records\<close>, the value of the state in the render that built the handler, is the
  list that \<^verbatim>\<open>find\<close> searches; \<open>prev\<close>, the value of the state when the
  update \<^verbatim>\<open>setRecords(prev => [record, ...prev])\<close> is applied, is the list
  that is extended. They are the same list unless the state has changed since that
  render.
\<close>

definition handleMarkAttendance ::
  "(string \<Rightarrow> jsnum) \<Rightarrow> AttendanceRecord list \<Rightarrow> AttendanceRecord list \<Rightarrow> AttendanceRecord \<Rightarrow>
     AttendanceRecord list" where
  "handleMarkAttendance parse records prev record =
     (case find (isRecent parse record) records of
        None \<Rightarrow> record # prev
      | Some recentRecord \<Rightarrow> prev)"

text \<open>
  The claim's own words, for comparison with the code: two time-of-day strings differ by
  less than 60 seconds when both denote a time and the two times are less than 60000
  milliseconds apart.
\<close>

definition within60s :: "(string \<Rightarrow> jsnum) \<Rightarrow> string \<Rightarrow> string \<Rightarrow> bool" where
  "within60s parse t1 t2 =
     (case getTime parse t1 of
        None \<Rightarrow> False
      | Some a \<Rightarrow> (case getTime parse t2 of None \<Rightarrow> False | Some b \<Rightarrow> \<bar>a - b\<bar> < 60000))"

definition duplicateIn ::
  "(string \<Rightarrow> jsnum) \<Rightarrow> AttendanceRecord list \<Rightarrow> AttendanceRecord \<Rightarrow> bool" where
  "duplicateIn parse records record =
     (\<exists>r \<in> set records. studentId r = studentId record \<and> date r = date record \<and>
        within60s parse (timestamp r) (timestamp record))"

text \<open>Example data: a parser table for the time strings that occur, and events.\<close>

definition exampleParse :: "string \<Rightarrow> jsnum" where
  "exampleParse = map_of
     [(''1970/01/01 10:00:00'', 36000000),
      (''1970/01/01 10:00:10'', 36010000),
      (''1970/01/01 23:59:50'', 86390000),
      (''1970/01/01 00:00:05'', 5000)]"

definition mkEvent :: "string \<Rightarrow> string \<Rightarrow> string \<Rightarrow> AttendanceRecord" where
  "mkEvent sid d t =
     \<lparr>record_id = ''1'', studentId = sid, studentName = ''Asha'', timestamp = t, date = d,
      status = PRESENT, confidence = 1, emotion = None, record_notes = None\<rparr>"

section \<open>Role-based visibility (App.tsx, filteredStudents and filteredRecords)\<close>

text \<open>
  \<^verbatim>\<open>currentUser\<close> is \<^verbatim>\<open>User | null\<close>. The test
  \<^verbatim>\<open>currentUser.assignedClass\<close> is a truthiness test: an absent class and the
  empty string both fail it. \<^verbatim>\<open>s.classSection === currentUser.assignedClass\<close>
  compares a string with a string that may be undefined.
\<close>

definition filteredStudents :: "User option \<Rightarrow> Student list \<Rightarrow> Student list" where
  "filteredStudents currentUser students =
     (case currentUser of
        None \<Rightarrow> []
      | Some u \<Rightarrow>
          if role u = teacher \<and> truthy_opt (assignedClass u)
          then filter (\<lambda>s. Some (classSection s) = assignedClass u) students
          else students)"

definition filteredRecords ::
  "User option \<Rightarrow> Student list \<Rightarrow> AttendanceRecord list \<Rightarrow> AttendanceRecord list" where
  "filteredRecords currentUser students records =
     (case currentUser of
        None \<Rightarrow> []
      | Some u \<Rightarrow>
          if role u = teacher \<and> truthy_opt (assignedClass u)
          then (let classStudentIds =
                      map student_id (filter (\<lambda>s. Some (classSection s) = assignedClass u) students)
                in filter (\<lambda>r. studentId r \<in> set classStudentIds) records)
          else records)"

text \<open>Example actors and students.\<close>

definition mkStudent :: "string \<Rightarrow> string \<Rightarrow> string \<Rightarrow> Student" where
  "mkStudent i n c =
     \<lparr>student_id = i, student_name = n, rollNumber = ''7'', classSection = c,
      photoUrl = ''data:image/jpeg;base64,AAAA'', registeredAt = ''2024-03-01''\<rparr>"

definition mkTeacher :: "string option \<Rightarrow> User" where
  "mkTeacher c =
     \<lparr>username = ''meera'', password = ''pw'', user_name = ''Meera'', role = teacher,
      assignedClass = c\<rparr>"

section \<open>User management (App.tsx handlers, AdminPanel form and delete control)\<close>

definition SUPER_ADMIN :: User where
  "SUPER_ADMIN =
     \<lparr>username = ''prahald'', password = ''Prahlad@12'', user_name = ''Prahlad (Super Admin)'',
      role = admin, assignedClass = None\<rparr>"

definition handleAddUser :: "User list \<Rightarrow> User \<Rightarrow> User list" where
  "handleAddUser prev newUser = prev @ [newUser]"

definition handleEditUser :: "User list \<Rightarrow> User \<Rightarrow> User list" where
  "handleEditUser prev updatedUser =
     map (\<lambda>u. if username u = username updatedUser then updatedUser else u) prev"

definition handleDeleteUser :: "User list \<Rightarrow> string \<Rightarrow> User list" where
  "handleDeleteUser prev name = filter (\<lambda>u. username u \<noteq> name) prev"

text \<open>The state of the user form of the admin panel.\<close>

record UserForm =
  editingUser :: "User option"
  form_username :: string
  form_password :: string
  form_name :: string
  form_role :: Role
  form_assignedClass :: string

definition handleEditClick :: "User \<Rightarrow> UserForm" where
  "handleEditClick user =
     \<lparr>editingUser = Some user, form_username = username user, form_password = password user,
      form_name = user_name user, form_role = role user,
      form_assignedClass = (case assignedClass user of None \<Rightarrow> [] | Some c \<Rightarrow> c)\<rparr>"

text \<open>
  \<^verbatim>\<open>handleUserSubmit\<close>: \<open>Inl\<close> is the message put into \<^verbatim>\<open>userError\<close>
  (the user list stays as it is), \<open>Inr\<close> the user list after \<^verbatim>\<open>onEditUser\<close> or
  \<^verbatim>\<open>onAddUser\<close>.
\<close>

definition handleUserSubmit :: "User list \<Rightarrow> UserForm \<Rightarrow> string + User list" where
  "handleUserSubmit users f =
     (if \<not> truthy (form_username f) \<or> \<not> truthy (form_password f) \<or> \<not> truthy (form_name f)
      then Inl ''All fields are required''
      else if form_role f = teacher \<and> \<not> truthy (form_assignedClass f)
      then Inl ''Teachers must be assigned a Class Section''
      else if editingUser f = None \<and> (\<exists>u \<in> set users. username u = form_username f)
      then Inl ''Username already exists''
      else
        (let userData =
               \<lparr>username = form_username f, password = form_password f, user_name = form_name f,
                role = form_role f,
                assignedClass = (if form_role f = teacher then Some (form_assignedClass f) else None)\<rparr>
         in if editingUser f \<noteq> None then Inr (handleEditUser users userData)
            else Inr (handleAddUser users userData)))"

text \<open>The condition under which a row of the user table shows its delete button.\<close>

definition deleteOffered :: "User \<Rightarrow> User \<Rightarrow> bool" where
  "deleteOffered currentUser user =
     (username user \<noteq> ''prahald'' \<and> username user \<noteq> username currentUser)"

text \<open>
  What an actor can do in the panel: submit the user form, or click the delete button of
  the row of a user name. The panel renders nothing but a refusal for an actor who is
  not an admin, and a delete button exists only in a row of the table that offers it.
\<close>

datatype PanelOp = SubmitUser UserForm | ClickDelete string

definition panelStep :: "User \<Rightarrow> User list \<Rightarrow> PanelOp \<Rightarrow> User list" where
  "panelStep currentUser users op =
     (if role currentUser \<noteq> admin then users
      else case op of
        SubmitUser f \<Rightarrow> (case handleUserSubmit users f of Inl e \<Rightarrow> users | Inr users' \<Rightarrow> users')
      | ClickDelete name \<Rightarrow>
          if \<exists>u \<in> set users. username u = name \<and> deleteOffered currentUser u
          then handleDeleteUser users name else users)"

definition panelRun :: "User \<Rightarrow> User list \<Rightarrow> PanelOp list \<Rightarrow> User list" where
  "panelRun currentUser users ops = foldl (panelStep currentUser) users ops"

definition editsKeepBootstrapRole :: "PanelOp list \<Rightarrow> bool" where
  "editsKeepBootstrapRole ops =
     (\<forall>op \<in> set ops. case op of
        SubmitUser f \<Rightarrow>
          editingUser f \<noteq> None \<and> form_username f = ''prahald'' \<longrightarrow> form_role f = admin
      | ClickDelete name \<Rightarrow> True)"

definition hasBootstrapAdmin :: "User list \<Rightarrow> bool" where
  "hasBootstrapAdmin users = (\<exists>u \<in> set users. username u = ''prahald'' \<and> role u = admin)"

text \<open>The form after clicking Edit on the bootstrap admin and choosing the teacher role.\<close>

definition demoteForm :: UserForm where
  "demoteForm = (handleEditClick SUPER_ADMIN)\<lparr>form_role := teacher, form_assignedClass := ''10-A''\<rparr>"

text \<open>
  A sequence of operations: a click on a delete button that the table does not offer, an
  added teacher, and the deletion of that teacher.
\<close>

definition exampleOps :: "PanelOp list" where
  "exampleOps =
     [ClickDelete ''prahald'',
      SubmitUser \<lparr>editingUser = None, form_username = ''meera'', form_password = ''pw'',
                  form_name = ''Meera'', form_role = teacher, form_assignedClass = ''10-A''\<rparr>,
      ClickDelete ''meera'']"

section \<open>The analyzer request (geminiService, analyzeFrame)\<close>

text \<open>
  \<^verbatim>\<open>x.split(',')[1] || x\<close>: the second segment of the split when there is one and
  it is not empty, else the whole string.
\<close>

fun split_on :: "char \<Rightarrow> string \<Rightarrow> string list" where
  "split_on c [] = [[]]"
| "split_on c (x # xs) =
     (if x = c then [] # split_on c xs
      else (case split_on c xs of [] \<Rightarrow> [[x]] | seg # segs \<Rightarrow> (x # seg) # segs))"

definition cleanBase64 :: "string \<Rightarrow> string" where
  "cleanBase64 x =
     (case split_on (CHR '','') x of
        a # b # rest \<Rightarrow> if truthy b then b else x
      | _ \<Rightarrow> x)"

datatype Part = Text string | InlineData string string

definition noStudentsResult :: ScanResult where
  "noStudentsResult =
     \<lparr>matchId = None, result_confidence = 0, isRealPerson = False,
      result_emotion = ''No students registered'',
      description = ''Please register students first.''\<rparr>"

definition targetParts :: "string \<Rightarrow> Part list" where
  "targetParts currentFrameBase64 =
     [Text ''TARGET IMAGE (Current Camera Feed):'',
      InlineData ''image/jpeg'' (cleanBase64 currentFrameBase64),
      Text ''REFERENCE IMAGES (Registered Students):'']"

text \<open>\<^verbatim>\<open>registeredStudents.slice(0, 5)\<close>\<close>

definition activeStudents :: "Student list \<Rightarrow> Student list" where
  "activeStudents registeredStudents = take 5 registeredStudents"

text \<open>The body of the loop over \<^verbatim>\<open>activeStudents\<close>: two pushes.\<close>

definition pushStudent :: "Part list \<Rightarrow> Student \<Rightarrow> Part list" where
  "pushStudent parts student =
     parts @ [Text (''Student ID: '' @ student_id student @ '' - Name: '' @ student_name student),
              InlineData ''image/jpeg'' (cleanBase64 (photoUrl student))]"

definition finalPart :: Part where
  "finalPart = Text (''Analyze the Target Image against the Reference Images. '' @
     ''If a match is found with high confidence, return the ID. If strictly no match, return null.'')"

definition requestParts :: "string \<Rightarrow> Student list \<Rightarrow> Part list" where
  "requestParts currentFrameBase64 registeredStudents =
     foldl pushStudent (targetParts currentFrameBase64) (activeStudents registeredStudents)
       @ [finalPart]"

text \<open>
  The vision service is a collaborator: \<open>generateContent\<close> maps the parts of the
  request to the parsed verdict, or to \<open>None\<close> when the call or the parsing throws,
  which \<^verbatim>\<open>analyzeFrame\<close> turns into its own error.
\<close>

datatype AnalysisError = FailedToAnalyzeFrame

definition analyzeFrame ::
  "(Part list \<Rightarrow> ScanResult option) \<Rightarrow> string \<Rightarrow> Student list \<Rightarrow> AnalysisError + ScanResult" where
  "analyzeFrame generateContent currentFrameBase64 registeredStudents =
     (if length registeredStudents = 0 then Inr noStudentsResult
      else case generateContent (requestParts currentFrameBase64 registeredStudents) of
             None \<Rightarrow> Inl FailedToAnalyzeFrame
           | Some result \<Rightarrow> Inr result)"

text \<open>Example data: a pool of six students.\<close>

definition sixStudents :: "Student list" where
  "sixStudents =
     [mkStudent ''S1'' ''Asha'' ''10-A'', mkStudent ''S2'' ''Bala'' ''10-A'',
      mkStudent ''S3'' ''Chitra'' ''10-A'', mkStudent ''S4'' ''Dev'' ''10-A'',
      mkStudent ''S5'' ''Esha'' ''10-A'', mkStudent ''S6'' ''Farid'' ''10-A'']"

section \<open>The live scanner (LiveScanner, handleScan)\<close>

text \<open>
  The component state. \<open>videoRef_current\<close> and \<open>canvasRef_current\<close> say whether the
  two refs hold an element. A log message is a byte string; the pictographs that start
  some messages are written as their UTF-8 bytes.
\<close>

record Scanner =
  videoRef_current :: bool
  canvasRef_current :: bool
  isActive :: bool
  isProcessing :: bool
  autoMode :: bool
  lastScanResult :: "ScanResult option"
  logs :: "string list"

definition addLog :: "string \<Rightarrow> Scanner \<Rightarrow> Scanner" where
  "addLog msg sc = sc\<lparr>logs := take 10 (msg # logs sc)\<rparr>"

definition checkMark :: string where
  "checkMark = [CHR 0xE2, CHR 0x9C, CHR 0x85]"

definition warningSign :: string where
  "warningSign = [CHR 0xE2, CHR 0x9A, CHR 0xA0, CHR 0xEF, CHR 0xB8, CHR 0x8F]"

definition infoSign :: string where
  "infoSign = [CHR 0xE2, CHR 0x84, CHR 0xB9, CHR 0xEF, CHR 0xB8, CHR 0x8F]"

definition crossMark :: string where
  "crossMark = [CHR 0xE2, CHR 0x9D, CHR 0x8C]"

text \<open>
  The clock readings that a record takes: \<^verbatim>\<open>Date.now().toString()\<close>,
  \<^verbatim>\<open>new Date().toLocaleTimeString()\<close> and the date part of
  \<^verbatim>\<open>new Date().toISOString()\<close>.
\<close>

record Clock =
  now_ms :: string
  localeTime :: string
  isoDate :: string

definition presentRecord :: "Clock \<Rightarrow> Student \<Rightarrow> ScanResult \<Rightarrow> AttendanceRecord" where
  "presentRecord clk student result =
     \<lparr>record_id = now_ms clk, studentId = student_id student, studentName = student_name student,
      timestamp = localeTime clk, date = isoDate clk, status = PRESENT,
      confidence = result_confidence result, emotion = Some (result_emotion result),
      record_notes = Some (description result)\<rparr>"

definition proxyRecord :: "Clock \<Rightarrow> Student \<Rightarrow> ScanResult \<Rightarrow> AttendanceRecord" where
  "proxyRecord clk student result =
     \<lparr>record_id = now_ms clk, studentId = student_id student, studentName = student_name student,
      timestamp = localeTime clk, date = isoDate clk, status = PROXY_ATTEMPT,
      confidence = result_confidence result, emotion = Some (result_emotion result),
      record_notes = Some (''Spoofing Detected: '' @ description result)\<rparr>"

text \<open>
  The "Process Result" block of \<^verbatim>\<open>handleScan\<close>: the record handed to
  \<^verbatim>\<open>onMarkAttendance\<close>, if any, and the message handed to \<^verbatim>\<open>addLog\<close>,
  if any. \<^verbatim>\<open>if (result.matchId)\<close> is a truthiness test.
\<close>

definition processResult ::
  "Clock \<Rightarrow> Student list \<Rightarrow> ScanResult \<Rightarrow> AttendanceRecord option \<times> string option" where
  "processResult clk students result =
     (if truthy_opt (matchId result) then
        (case find (\<lambda>s. Some (student_id s) = matchId result) students of
           Some student \<Rightarrow>
             if isRealPerson result
             then (Some (presentRecord clk student result),
                   Some (checkMark @ '' Marked '' @ student_name student @ '' as PRESENT''))
             else (Some (proxyRecord clk student result),
                   Some (warningSign @ '' Proxy Attempt blocked for '' @ student_name student))
         | None \<Rightarrow> (None, None))
      else (None, Some (infoSign @ '' '' @ description result)))"

text \<open>The state of the application that a scan touches: the ledger and the scanner.\<close>

record App =
  app_records :: "AttendanceRecord list"
  app_scanner :: Scanner

text \<open>
  \<^verbatim>\<open>handleScan\<close> up to its \<^verbatim>\<open>await\<close>: the guard, the processing flag,
  the log line and the capture. A handler is built by a render of the component, and
  the \<^verbatim>\<open>isProcessing\<close> of its guard is the constant of that render:
  \<open>rendered\<close> is the scanner state that the render saw. The two refs are read when
  the handler runs, and \<^verbatim>\<open>setIsProcessing\<close> and \<^verbatim>\<open>addLog\<close> act on the
  state \<open>sc\<close> of that moment. \<open>capture\<close> is the frame read from the canvas, or
  \<open>None\<close> when the canvas gives no 2D context (the function then returns through its
  \<^verbatim>\<open>finally\<close>). The second component is the call of \<^verbatim>\<open>analyzeFrame\<close>
  that is started, if any, with its two arguments.
\<close>

definition handleScan_start ::
  "Scanner \<Rightarrow> string option \<Rightarrow> Student list \<Rightarrow> Scanner \<Rightarrow> Scanner \<times> (string \<times> Student list) option" where
  "handleScan_start rendered capture students sc =
     (if \<not> videoRef_current sc \<or> \<not> canvasRef_current sc \<or> isProcessing rendered then (sc, None)
      else
        (let sc1 = addLog ''Scanning frame...'' (sc\<lparr>isProcessing := True\<rparr>)
         in case capture of
              None \<Rightarrow> (sc1\<lparr>isProcessing := False\<rparr>, None)
            | Some frameBase64 \<Rightarrow> (sc1, Some (frameBase64, students))))"

definition scanStart ::
  "Scanner \<Rightarrow> string option \<Rightarrow> Student list \<Rightarrow> App \<Rightarrow> App \<times> (string \<times> Student list) option" where
  "scanStart rendered capture students app =
     (case handleScan_start rendered capture students (app_scanner app) of
        (sc, started) \<Rightarrow> (app\<lparr>app_scanner := sc\<rparr>, started))"

text \<open>
  The two ways in which \<^verbatim>\<open>handleScan\<close> is called. The render shows the scan
  button only while the camera is active and disables it while a scan is in progress; a
  click runs the handler of that render. The effect of a render arms the 8 second
  interval only when that render saw the camera active, auto mode on and no scan in
  progress; a tick runs the handler of that render, until the effect of a later render
  clears the interval.
\<close>

definition clickScan ::
  "Scanner \<Rightarrow> string option \<Rightarrow> Student list \<Rightarrow> App \<Rightarrow> App \<times> (string \<times> Student list) option" where
  "clickScan rendered capture students app =
     (if isActive rendered \<and> \<not> isProcessing rendered
      then scanStart rendered capture students app else (app, None))"

definition autoTimerArmed :: "Scanner \<Rightarrow> bool" where
  "autoTimerArmed rendered = (isActive rendered \<and> autoMode rendered \<and> \<not> isProcessing rendered)"

definition autoTick ::
  "Scanner \<Rightarrow> string option \<Rightarrow> Student list \<Rightarrow> App \<Rightarrow> App \<times> (string \<times> Student list) option" where
  "autoTick rendered capture students app =
     (if autoTimerArmed rendered then scanStart rendered capture students app else (app, None))"

text \<open>
  \<^verbatim>\<open>handleScan\<close> after its \<^verbatim>\<open>await\<close>, given what \<^verbatim>\<open>analyzeFrame\<close>
  returned or threw: the result is stored and processed, or the failure is logged, and
  the \<^verbatim>\<open>finally\<close> clears the processing flag. \<open>students\<close> and \<open>records\<close> are
  the values of the render that built the handler (the \<^verbatim>\<open>onMarkAttendance\<close> of
  that render searches \<open>records\<close>); the state updates act on \<open>app\<close>.
\<close>

definition handleScan_finish ::
  "(string \<Rightarrow> jsnum) \<Rightarrow> Clock \<Rightarrow> Student list \<Rightarrow> AttendanceRecord list \<Rightarrow>
     AnalysisError + ScanResult \<Rightarrow> App \<Rightarrow> App" where
  "handleScan_finish parse clk students records outcome app =
     (case outcome of
        Inl error \<Rightarrow>
          app\<lparr>app_scanner :=
                (addLog (crossMark @ '' Scan failed: AI Error'') (app_scanner app))
                  \<lparr>isProcessing := False\<rparr>\<rparr>
      | Inr result \<Rightarrow>
          (let sc1 = (app_scanner app)\<lparr>lastScanResult := Some result\<rparr>
           in case processResult clk students result of
                (marked, msg) \<Rightarrow>
                  \<lparr>app_records =
                      (case marked of
                         None \<Rightarrow> app_records app
                       | Some record \<Rightarrow> handleMarkAttendance parse records (app_records app) record),
                   app_scanner =
                      (case msg of None \<Rightarrow> sc1 | Some m \<Rightarrow> addLog m sc1)
                        \<lparr>isProcessing := False\<rparr>\<rparr>))"

text \<open>Example data for the scanner.\<close>

definition exampleClock :: Clock where
  "exampleClock = \<lparr>now_ms = ''1709546400000'', localeTime = ''10:00:00'', isoDate = ''2024-03-04''\<rparr>"

definition mkVerdict :: "string option \<Rightarrow> bool \<Rightarrow> ScanResult" where
  "mkVerdict m live =
     \<lparr>matchId = m, result_confidence = 92 / 100, isRealPerson = live,
      result_emotion = ''Focused'', description = ''clear match''\<rparr>"

definition idleScanner :: Scanner where
  "idleScanner =
     \<lparr>videoRef_current = True, canvasRef_current = True, isActive = True, isProcessing = False,
      autoMode = True, lastScanResult = None, logs = []\<rparr>"

definition idleApp :: App where
  "idleApp = \<lparr>app_records = [], app_scanner = idleScanner\<rparr>"

definition scanningApp :: App where
  "scanningApp =
     \<lparr>app_records = [],
      app_scanner =
        \<lparr>videoRef_current = True, canvasRef_current = True, isActive = True, isProcessing = True,
         autoMode = True, lastScanResult = None, logs = [''Scanning frame...'']\<rparr>\<rparr>"

section \<open>Monthly report (Reports, monthlyStats)\<close>

text \<open>
  The scanner writes the date of a record as the first ten characters of
  \<^verbatim>\<open>toISOString()\<close>: four digits, a hyphen, two digits, a hyphen, two digits, a
  date of the calendar. \<open>parseIsoDate\<close> reads such a string as year, month and day;
  any other string is \<open>None\<close> (the application creates no other).
\<close>

definition digit :: "char \<Rightarrow> int option" where
  "digit c = (let n = (of_char c :: nat) in if 48 \<le> n \<and> n \<le> 57 then Some (int n - 48) else None)"

fun number :: "int \<Rightarrow> string \<Rightarrow> int option" where
  "number acc [] = Some acc"
| "number acc (c # cs) = (case digit c of None \<Rightarrow> None | Some v \<Rightarrow> number (10 * acc + v) cs)"

definition leapYear :: "int \<Rightarrow> bool" where
  "leapYear y = (y mod 4 = 0 \<and> (y mod 100 \<noteq> 0 \<or> y mod 400 = 0))"

definition daysInMonth :: "int \<Rightarrow> int \<Rightarrow> int" where
  "daysInMonth y m =
     (if m = 2 then (if leapYear y then 29 else 28)
      else if m = 4 \<or> m = 6 \<or> m = 9 \<or> m = 11 then 30 else 31)"

definition parseIsoDate :: "string \<Rightarrow> (int \<times> int \<times> int) option" where
  "parseIsoDate s =
     (if length s = 10 \<and> s ! 4 = CHR ''-'' \<and> s ! 7 = CHR ''-'' then
        (case number 0 (take 4 s) of
           None \<Rightarrow> None
         | Some y \<Rightarrow>
             (case number 0 (take 2 (drop 5 s)) of
                None \<Rightarrow> None
              | Some m \<Rightarrow>
                  (case number 0 (drop 8 s) of
                     None \<Rightarrow> None
                   | Some d \<Rightarrow>
                       if 1 \<le> m \<and> m \<le> 12 \<and> 1 \<le> d \<and> d \<le> daysInMonth y m
                       then Some (y, m, d) else None)))
      else None)"

text \<open>
  \<^verbatim>\<open>new Date(r.date)\<close> of such a string is midnight UTC of that day, and
  \<^verbatim>\<open>getFullYear()\<close> and \<^verbatim>\<open>getMonth()\<close> (January is 0) read that instant in
  local time. \<open>tz\<close> gives the offset of local time from UTC at that instant, in
  minutes, less than a day in size: where local time is not behind UTC the instant is
  on the same day, where it is behind UTC the instant is on the day before, which is in
  the month before when the day is the first of its month.
\<close>

type_synonym zone = "int \<times> int \<times> int \<Rightarrow> int"

definition localYearMonth :: "zone \<Rightarrow> int \<times> int \<times> int \<Rightarrow> int \<times> int" where
  "localYearMonth tz ymd =
     (case ymd of (y, m, d) \<Rightarrow>
        if 0 \<le> tz ymd \<or> 1 < d then (y, m - 1)
        else if 1 < m then (y, m - 2)
        else (y - 1, 11))"

text \<open>
  \<open>year\<close> and \<open>month\<close> are the two numbers read from the month control. The
  percentage column is a rounded floating-point quotient and is left out of the row.
\<close>

datatype ReportType = daily | monthly

record Stat =
  stat_student :: Student
  present :: int
  absent :: int

definition inMonth :: "zone \<Rightarrow> int \<Rightarrow> int \<Rightarrow> AttendanceRecord \<Rightarrow> bool" where
  "inMonth tz year month r =
     (case parseIsoDate (date r) of
        None \<Rightarrow> False
      | Some ymd \<Rightarrow> (case localYearMonth tz ymd of (y, m) \<Rightarrow> y = year \<and> m + 1 = month))"

definition monthRecords :: "zone \<Rightarrow> int \<Rightarrow> int \<Rightarrow> AttendanceRecord list \<Rightarrow> AttendanceRecord list" where
  "monthRecords tz year month records = filter (inMonth tz year month) records"

text \<open>\<^verbatim>\<open>new Set(monthRecords.map(r => r.date)).size\<close>\<close>

definition uniqueDays :: "zone \<Rightarrow> int \<Rightarrow> int \<Rightarrow> AttendanceRecord list \<Rightarrow> int" where
  "uniqueDays tz year month records =
     int (length (remdups (map date (monthRecords tz year month records))))"

definition totalDays :: "zone \<Rightarrow> int \<Rightarrow> int \<Rightarrow> AttendanceRecord list \<Rightarrow> int" where
  "totalDays tz year month records =
     (if uniqueDays tz year month records > 0 then uniqueDays tz year month records else 0)"

definition studentStat :: "zone \<Rightarrow> int \<Rightarrow> int \<Rightarrow> AttendanceRecord list \<Rightarrow> Student \<Rightarrow> Stat" where
  "studentStat tz year month records student =
     (let studentRecords =
            filter (\<lambda>r. studentId r = student_id student) (monthRecords tz year month records);
          presentCount = int (length (filter (\<lambda>r. status r = PRESENT) studentRecords));
          absentCount = totalDays tz year month records - presentCount
      in \<lparr>stat_student = student, present = presentCount,
          absent = (if absentCount < 0 then 0 else absentCount)\<rparr>)"

text \<open>
  \<open>toLowerCase\<close> is the runtime's case mapping; \<^verbatim>\<open>a.includes(b)\<close> holds when
  \<open>b\<close> is a contiguous part of \<open>a\<close>.
\<close>

definition monthlyStats ::
  "(string \<Rightarrow> string) \<Rightarrow> zone \<Rightarrow> ReportType \<Rightarrow> int \<Rightarrow> int \<Rightarrow> string \<Rightarrow>
     AttendanceRecord list \<Rightarrow> Student list \<Rightarrow> Stat list" where
  "monthlyStats toLowerCase tz reportType year month searchTerm records students =
     (if reportType \<noteq> monthly then []
      else filter (\<lambda>stat. sublist (toLowerCase searchTerm)
                                  (toLowerCase (student_name (stat_student stat))))
             (map (studentStat tz year month records) students))"

text \<open>
  The report as the application shows it (\<^verbatim>\<open>renderContent\<close>, case
  \<^verbatim>\<open>'reports'\<close>): the component is given the records and the students that the
  current user may see.
\<close>

definition renderReports ::
  "(string \<Rightarrow> string) \<Rightarrow> zone \<Rightarrow> User option \<Rightarrow> Student list \<Rightarrow> AttendanceRecord list \<Rightarrow>
     ReportType \<Rightarrow> int \<Rightarrow> int \<Rightarrow> string \<Rightarrow> Stat list" where
  "renderReports toLowerCase tz currentUser students records reportType year month searchTerm =
     monthlyStats toLowerCase tz reportType year month searchTerm
       (filteredRecords currentUser students records) (filteredStudents currentUser students)"

text \<open>
  The claim's own words, for comparison with the code: a date falls in a month when it
  is a date of the calendar whose year and month are the given ones; the scanned days of
  a month in a ledger are the distinct dates of its records that fall in the month.
\<close>

definition dateInMonth :: "int \<Rightarrow> int \<Rightarrow> string \<Rightarrow> bool" where
  "dateInMonth year month d =
     (case parseIsoDate d of None \<Rightarrow> False | Some (y, m, day) \<Rightarrow> y = year \<and> m = month)"

definition scannedDays :: "int \<Rightarrow> int \<Rightarrow> AttendanceRecord list \<Rightarrow> string set" where
  "scannedDays year month records = {d \<in> date ` set records. dateInMonth year month d}"

definition presentEvents :: "int \<Rightarrow> int \<Rightarrow> AttendanceRecord list \<Rightarrow> Student \<Rightarrow> AttendanceRecord list" where
  "presentEvents year month records student =
     filter (\<lambda>r. dateInMonth year month (date r) \<and> studentId r = student_id student \<and>
                 status r = PRESENT) records"

text \<open>
  Example data: a ledger of one class with three scanned days in March 2024 and one in
  April, a zone ahead of UTC and one behind it, and a ledger of two classes with their
  students.
\<close>

definition marchLedger :: "AttendanceRecord list" where
  "marchLedger =
     [mkEvent ''S101'' ''2024-04-01'' ''10:00:00'',
      mkEvent ''S102'' ''2024-03-06'' ''10:00:00'',
      mkEvent ''S101'' ''2024-03-05'' ''10:00:00'',
      mkEvent ''S102'' ''2024-03-05'' ''10:00:10'',
      mkEvent ''S101'' ''2024-03-04'' ''10:00:00'']"

definition india :: zone where
  "india ymd = 330"

definition newYork :: zone where
  "newYork ymd = - 300"

definition twoClasses :: "Student list" where
  "twoClasses = [mkStudent ''S1'' ''Asha'' ''10-A'', mkStudent ''S2'' ''Bala'' ''10-B'']"

definition twoClassLedger :: "AttendanceRecord list" where
  "twoClassLedger =
     [mkEvent ''S2'' ''2024-03-05'' ''10:00:00'', mkEvent ''S1'' ''2024-03-04'' ''10:00:00'']"

section \<open>Properties of the ledger\<close>

lemma isRecent_within60s:
  "isRecent parse record r \<longleftrightarrow>
     studentId r = studentId record \<and> date r = date record \<and>
     within60s parse (timestamp r) (timestamp record)"
  by (auto simp: isRecent_def within60s_def js_less_def js_abs_def js_minus_def
           split: option.splits)

lemma find_isRecent_None:
  "find (isRecent parse record) records = None \<longleftrightarrow> \<not> duplicateIn parse records record"
  by (auto simp: find_None_iff duplicateIn_def isRecent_within60s)

lemma handleMarkAttendance_cases:
  "handleMarkAttendance parse records prev record =
     (if duplicateIn parse records record then prev else record # prev)"
proof (cases "find (isRecent parse record) records")
  case None
  then have "\<not> duplicateIn parse records record"
    by (simp add: find_isRecent_None)
  with None show ?thesis
    by (simp add: handleMarkAttendance_def)
next
  case (Some recentRecord)
  then have "duplicateIn parse records record"
    using find_isRecent_None [of parse "record" records] by simp
  with Some show ?thesis
    by (simp add: handleMarkAttendance_def)
qed

lemma handleScan_finish_scanner:
  "app_scanner (handleScan_finish parse clk students records (Inr result) app) =
     (case snd (processResult clk students result) of
        None \<Rightarrow> (app_scanner app)\<lparr>lastScanResult := Some result\<rparr>
      | Some m \<Rightarrow> addLog m ((app_scanner app)\<lparr>lastScanResult := Some result\<rparr>))
       \<lparr>isProcessing := False\<rparr>"
  by (simp add: handleScan_finish_def Let_def split: prod.splits)

text \<open>
  C1, amended. When the list that the handler searches is the ledger itself (no update
  of the ledger since the render that built the handler), the handler leaves the ledger
  as it is exactly when the ledger holds an event of the same student and the same date
  whose time of day is less than 60 seconds from the candidate's, and otherwise puts the
  candidate at the head of the ledger. In every case the new ledger is the ledger or
  the ledger with the candidate at its head. The handler reports nothing: what the
  scanner shows after a scan (its log and its last result) is the same whatever the
  ledger and the searched list are, so the same for a stored and for a dropped event.
\<close>

theorem append_dedup:
  "(handleMarkAttendance parse ledger ledger record = ledger
      \<longleftrightarrow> duplicateIn parse ledger record) \<and>
   (\<not> duplicateIn parse ledger record
      \<longrightarrow> handleMarkAttendance parse ledger ledger record = record # ledger) \<and>
   (handleMarkAttendance parse records prev record = prev \<or>
    handleMarkAttendance parse records prev record = record # prev) \<and>
   app_scanner (handleScan_finish parse clk students records (Inr result) app)
     = app_scanner (handleScan_finish parse' clk students records'
                      (Inr result) (app\<lparr>app_records := ledger'\<rparr>))"
  by (simp add: handleMarkAttendance_cases handleScan_finish_scanner split: option.splits)

theorem append_dedup_witness:
  "handleMarkAttendance exampleParse [mkEvent ''S101'' ''2024-03-04'' ''10:00:00'']
       [mkEvent ''S101'' ''2024-03-04'' ''10:00:00''] (mkEvent ''S101'' ''2024-03-04'' ''10:00:10'')
     = [mkEvent ''S101'' ''2024-03-04'' ''10:00:00''] \<and>
   handleMarkAttendance exampleParse [mkEvent ''S101'' ''2024-03-04'' ''10:00:00'']
       [mkEvent ''S101'' ''2024-03-04'' ''10:00:00''] (mkEvent ''S102'' ''2024-03-04'' ''10:00:10'')
     = [mkEvent ''S102'' ''2024-03-04'' ''10:00:10'', mkEvent ''S101'' ''2024-03-04'' ''10:00:00'']"
proof -
  let ?e = "mkEvent ''S101'' ''2024-03-04'' ''10:00:00''"
  have d1: "duplicateIn exampleParse [?e] (mkEvent ''S101'' ''2024-03-04'' ''10:00:10'')"
    by (simp add: duplicateIn_def within60s_def getTime_def exampleParse_def mkEvent_def)
  have d2: "\<not> duplicateIn exampleParse [?e] (mkEvent ''S102'' ''2024-03-04'' ''10:00:10'')"
    by (simp add: duplicateIn_def mkEvent_def)
  from d1 d2 show ?thesis
    using append_dedup [of exampleParse "[?e]" "mkEvent ''S101'' ''2024-03-04'' ''10:00:10''"]
      append_dedup [of exampleParse "[?e]" "mkEvent ''S102'' ''2024-03-04'' ''10:00:10''"]
    by simp
qed

text \<open>
  C1 as stated fails in two ways. A handler built before the ledger got its event
  searches the empty list of its render and accepts a candidate although the ledger
  holds an event of the same student and date 10 seconds earlier. And a scan whose
  event is dropped as a duplicate leaves the ledger as it is but logs the same
  "Marked ... as PRESENT" line as a scan whose event is stored: no rejection is
  reported.
\<close>

theorem append_dedup_counterexample:
  "duplicateIn exampleParse [mkEvent ''S101'' ''2024-03-04'' ''10:00:00'']
       (mkEvent ''S101'' ''2024-03-04'' ''10:00:10'') \<and>
   handleMarkAttendance exampleParse [] [mkEvent ''S101'' ''2024-03-04'' ''10:00:00'']
       (mkEvent ''S101'' ''2024-03-04'' ''10:00:10'')
     = [mkEvent ''S101'' ''2024-03-04'' ''10:00:10'', mkEvent ''S101'' ''2024-03-04'' ''10:00:00''] \<and>
   app_records (handleScan_finish exampleParse (exampleClock\<lparr>localeTime := ''10:00:10''\<rparr>)
       [mkStudent ''S101'' ''Asha'' ''7-C''] [mkEvent ''S101'' ''2024-03-04'' ''10:00:00'']
       (Inr (mkVerdict (Some ''S101'') True))
       (scanningApp\<lparr>app_records := [mkEvent ''S101'' ''2024-03-04'' ''10:00:00'']\<rparr>))
     = [mkEvent ''S101'' ''2024-03-04'' ''10:00:00''] \<and>
   logs (app_scanner (handleScan_finish exampleParse (exampleClock\<lparr>localeTime := ''10:00:10''\<rparr>)
       [mkStudent ''S101'' ''Asha'' ''7-C''] [mkEvent ''S101'' ''2024-03-04'' ''10:00:00'']
       (Inr (mkVerdict (Some ''S101'') True))
       (scanningApp\<lparr>app_records := [mkEvent ''S101'' ''2024-03-04'' ''10:00:00'']\<rparr>)))
     = [checkMark @ '' Marked Asha as PRESENT'', ''Scanning frame...'']"
proof -
  let ?a = "mkEvent ''S101'' ''2024-03-04'' ''10:00:00''"
  let ?b = "mkEvent ''S101'' ''2024-03-04'' ''10:00:10''"
  have d: "duplicateIn exampleParse [?a] ?b"
    by (simp add: duplicateIn_def within60s_def getTime_def exampleParse_def mkEvent_def)
  have s: "handleMarkAttendance exampleParse [] [?a] ?b = [?b, ?a]"
    by (simp add: handleMarkAttendance_def)
  have p: "processResult (exampleClock\<lparr>localeTime := ''10:00:10''\<rparr>)
             [mkStudent ''S101'' ''Asha'' ''7-C''] (mkVerdict (Some ''S101'') True)
           = (Some (presentRecord (exampleClock\<lparr>localeTime := ''10:00:10''\<rparr>)
                      (mkStudent ''S101'' ''Asha'' ''7-C'') (mkVerdict (Some ''S101'') True)),
              Some (checkMark @ '' Marked Asha as PRESENT''))"
    by (simp add: processResult_def truthy_opt_def truthy_def mkVerdict_def mkStudent_def)
  have q: "duplicateIn exampleParse [?a]
             (presentRecord (exampleClock\<lparr>localeTime := ''10:00:10''\<rparr>)
                (mkStudent ''S101'' ''Asha'' ''7-C'') (mkVerdict (Some ''S101'') True))"
    by (simp add: duplicateIn_def within60s_def getTime_def exampleParse_def mkEvent_def
        presentRecord_def exampleClock_def mkStudent_def)
  from d s show ?thesis
    by (simp add: handleScan_finish_def p handleMarkAttendance_cases q)
       (simp add: scanningApp_def addLog_def)
qed

text \<open>
  C5. The window never reaches across dates: when no event of the candidate's student
  among those that the handler searches has the candidate's date, the candidate is put
  at the head of the ledger whatever the times of day are, equal ones included. In
  particular an event at 23:59:50 on one date does not stop a candidate at 00:00:05 on
  the next.
\<close>

theorem append_cross_date:
  assumes "\<forall>r \<in> set records. studentId r = studentId record \<longrightarrow> date r \<noteq> date record"
  shows "handleMarkAttendance parse records prev record = record # prev"
proof -
  from assms have "\<forall>r \<in> set records. \<not> isRecent parse record r"
    by (auto simp: isRecent_def)
  then have "find (isRecent parse record) records = None"
    by (simp add: find_None_iff)
  then show ?thesis
    by (simp add: handleMarkAttendance_def)
qed

theorem append_cross_date_witness:
  "handleMarkAttendance exampleParse [mkEvent ''S101'' ''2024-03-04'' ''23:59:50'']
       [mkEvent ''S101'' ''2024-03-04'' ''23:59:50''] (mkEvent ''S101'' ''2024-03-05'' ''00:00:05'')
     = [mkEvent ''S101'' ''2024-03-05'' ''00:00:05'', mkEvent ''S101'' ''2024-03-04'' ''23:59:50'']"
  using append_cross_date [of "[mkEvent ''S101'' ''2024-03-04'' ''23:59:50'']"
      "mkEvent ''S101'' ''2024-03-05'' ''00:00:05''" exampleParse
      "[mkEvent ''S101'' ''2024-03-04'' ''23:59:50'']"]
  by (simp add: mkEvent_def)

section \<open>Properties of the visibility filter\<close>

lemma filteredStudents_teacher:
  "role u = teacher \<Longrightarrow> assignedClass u = Some c \<Longrightarrow> c \<noteq> [] \<Longrightarrow>
     filteredStudents (Some u) students = filter (\<lambda>s. classSection s = c) students"
  by (simp add: filteredStudents_def truthy_opt_def truthy_def)

text \<open>
  C4, amended. An admin gets the students and the events unchanged. A teacher whose
  assigned class is a non-empty string gets exactly the students of that class, in
  registry order, and exactly the events whose student id is the id of a student of
  that class in the registry given to the filter. (A teacher with no assigned class is
  not filtered at all, which is why the claim does not hold for every actor.)
\<close>

theorem visibility_filter:
  "(role u = admin \<longrightarrow>
      filteredStudents (Some u) students = students \<and>
      filteredRecords (Some u) students records = records) \<and>
   (role u = teacher \<and> assignedClass u = Some c \<and> c \<noteq> [] \<longrightarrow>
      filteredStudents (Some u) students = filter (\<lambda>s. classSection s = c) students \<and>
      filteredRecords (Some u) students records =
        filter (\<lambda>r. studentId r \<in> student_id ` set (filteredStudents (Some u) students)) records \<and>
      (\<forall>r. r \<in> set (filteredRecords (Some u) students records) \<longleftrightarrow>
         r \<in> set records \<and> (\<exists>s \<in> set students. classSection s = c \<and> student_id s = studentId r)))"
proof (intro conjI impI)
  assume "role u = admin"
  then show "filteredStudents (Some u) students = students"
    by (simp add: filteredStudents_def)
  from \<open>role u = admin\<close> show "filteredRecords (Some u) students records = records"
    by (simp add: filteredRecords_def)
next
  assume t: "role u = teacher \<and> assignedClass u = Some c \<and> c \<noteq> []"
  then show fs: "filteredStudents (Some u) students = filter (\<lambda>s. classSection s = c) students"
    by (simp add: filteredStudents_teacher)
  from t show fr: "filteredRecords (Some u) students records =
      filter (\<lambda>r. studentId r \<in> student_id ` set (filteredStudents (Some u) students)) records"
    by (simp add: fs) (simp add: filteredRecords_def truthy_opt_def truthy_def)
  show "\<forall>r. r \<in> set (filteredRecords (Some u) students records) \<longleftrightarrow>
         r \<in> set records \<and> (\<exists>s \<in> set students. classSection s = c \<and> student_id s = studentId r)"
    unfolding fr fs by (auto simp: image_iff)
qed

theorem visibility_filter_witness:
  "filteredStudents (Some SUPER_ADMIN) [mkStudent ''S1'' ''Asha'' ''10-A'', mkStudent ''S2'' ''Bala'' ''10-B'']
     = [mkStudent ''S1'' ''Asha'' ''10-A'', mkStudent ''S2'' ''Bala'' ''10-B''] \<and>
   filteredStudents (Some (mkTeacher (Some ''10-A'')))
       [mkStudent ''S1'' ''Asha'' ''10-A'', mkStudent ''S2'' ''Bala'' ''10-B'']
     = [mkStudent ''S1'' ''Asha'' ''10-A''] \<and>
   filteredRecords (Some (mkTeacher (Some ''10-A'')))
       [mkStudent ''S1'' ''Asha'' ''10-A'', mkStudent ''S2'' ''Bala'' ''10-B'']
       [mkEvent ''S2'' ''2024-03-04'' ''10:00:00'', mkEvent ''S1'' ''2024-03-04'' ''10:00:10'']
     = [mkEvent ''S1'' ''2024-03-04'' ''10:00:10'']"
proof -
  let ?st = "[mkStudent ''S1'' ''Asha'' ''10-A'', mkStudent ''S2'' ''Bala'' ''10-B'']"
  let ?rs = "[mkEvent ''S2'' ''2024-03-04'' ''10:00:00'', mkEvent ''S1'' ''2024-03-04'' ''10:00:10'']"
  have a: "role SUPER_ADMIN = admin"
    by (simp add: SUPER_ADMIN_def)
  have t: "role (mkTeacher (Some ''10-A'')) = teacher \<and>
           assignedClass (mkTeacher (Some ''10-A'')) = Some ''10-A'' \<and> ''10-A'' \<noteq> []"
    by (simp add: mkTeacher_def)
  from a t show ?thesis
    using visibility_filter [of SUPER_ADMIN ?st ?rs "''10-A''"]
      visibility_filter [of "mkTeacher (Some ''10-A'')" ?st ?rs "''10-A''"]
    by (simp add: mkStudent_def mkEvent_def)
qed

text \<open>
  C4 as stated fails for a teacher without an assigned class: the student of class 10-B
  is returned although 10-B is not the teacher's class, and so is that student's event.
\<close>

theorem visibility_filter_counterexample:
  "role (mkTeacher None) = teacher \<and>
   classSection (mkStudent ''S2'' ''Bala'' ''10-B'') = ''10-B'' \<and>
   assignedClass (mkTeacher None) \<noteq> Some ''10-B'' \<and>
   filteredStudents (Some (mkTeacher None)) [mkStudent ''S2'' ''Bala'' ''10-B'']
     = [mkStudent ''S2'' ''Bala'' ''10-B''] \<and>
   filteredRecords (Some (mkTeacher None)) [] [mkEvent ''S2'' ''2024-03-04'' ''10:00:00'']
     = [mkEvent ''S2'' ''2024-03-04'' ''10:00:00'']"
  by (simp add: mkTeacher_def mkStudent_def filteredStudents_def filteredRecords_def truthy_opt_def)

text \<open>
  C10. A teacher whose assigned class is absent or the empty string gets the whole
  registry and the whole ledger, the same as the same user with the admin role.
\<close>

theorem teacher_without_class:
  assumes "role u = teacher" and "assignedClass u = None \<or> assignedClass u = Some []"
  shows "filteredStudents (Some u) students = students \<and>
         filteredRecords (Some u) students records = records \<and>
         filteredStudents (Some u) students = filteredStudents (Some (u\<lparr>role := admin\<rparr>)) students \<and>
         filteredRecords (Some u) students records
           = filteredRecords (Some (u\<lparr>role := admin\<rparr>)) students records"
  using assms by (auto simp: filteredStudents_def filteredRecords_def truthy_opt_def truthy_def)

theorem teacher_without_class_witness:
  "filteredStudents (Some (mkTeacher None)) [mkStudent ''S1'' ''Asha'' ''10-A'', mkStudent ''S2'' ''Bala'' ''10-B'']
     = [mkStudent ''S1'' ''Asha'' ''10-A'', mkStudent ''S2'' ''Bala'' ''10-B''] \<and>
   filteredRecords (Some (mkTeacher (Some []))) [] [mkEvent ''S2'' ''2024-03-04'' ''10:00:00'']
     = [mkEvent ''S2'' ''2024-03-04'' ''10:00:00'']"
proof -
  have r: "role (mkTeacher None) = teacher" "role (mkTeacher (Some [])) = teacher"
    by (simp_all add: mkTeacher_def)
  have c1: "assignedClass (mkTeacher None) = None \<or> assignedClass (mkTeacher None) = Some []"
    by (simp add: mkTeacher_def)
  have c2: "assignedClass (mkTeacher (Some [])) = None \<or> assignedClass (mkTeacher (Some [])) = Some []"
    by (simp add: mkTeacher_def)
  show ?thesis
    using teacher_without_class [OF r(1) c1] teacher_without_class [OF r(2) c2]
    by simp
qed

section \<open>Properties of user management\<close>

lemma handleEditUser_usernames:
  "map username (handleEditUser users w) = map username users"
  by (induction users) (simp_all add: handleEditUser_def)

lemma handleEditUser_keeps_username:
  assumes "\<exists>u \<in> set users. username u = n"
  shows "\<exists>v \<in> set (handleEditUser users w). username v = n"
proof -
  have "username ` set (handleEditUser users w) = username ` set users"
    using handleEditUser_usernames [of users w] by (metis set_map)
  with assms show ?thesis
    by (metis (no_types, lifting) image_iff)
qed

lemma panelStep_keeps_username:
  assumes "\<exists>u \<in> set users. username u = ''prahald''"
  shows "\<exists>u \<in> set (panelStep cu users op). username u = ''prahald''"
proof (cases "role cu = admin")
  case False
  with assms show ?thesis by (simp add: panelStep_def)
next
  case True
  show ?thesis
  proof (cases op)
    case (SubmitUser f)
    from assms obtain u where u: "u \<in> set users" "username u = ''prahald''" by blast
    have "\<exists>v \<in> set (handleEditUser users w). username v = ''prahald''" for w
      using assms by (rule handleEditUser_keeps_username)
    moreover have "\<exists>v \<in> set (handleAddUser users w). username v = ''prahald''" for w
      using u by (auto simp: handleAddUser_def)
    ultimately show ?thesis
      using True SubmitUser assms
      by (auto simp: panelStep_def handleUserSubmit_def Let_def split: sum.splits if_splits)
  next
    case (ClickDelete name)
    with True assms show ?thesis
      by (auto simp: panelStep_def handleDeleteUser_def deleteOffered_def)
  qed
qed

lemma panelStep_keeps_admin:
  assumes "hasBootstrapAdmin users" and "editsKeepBootstrapRole [op]"
  shows "hasBootstrapAdmin (panelStep cu users op)"
proof (cases "role cu = admin")
  case False
  with assms show ?thesis by (simp add: panelStep_def)
next
  case True
  from assms(1) obtain u where u: "u \<in> set users" "username u = ''prahald''" "role u = admin"
    by (auto simp: hasBootstrapAdmin_def)
  show ?thesis
  proof (cases op)
    case (SubmitUser f)
    have add: "hasBootstrapAdmin (handleAddUser users w)" for w
      using u by (auto simp: handleAddUser_def hasBootstrapAdmin_def)
    have edit: "hasBootstrapAdmin (handleEditUser users w)"
      if "username w = ''prahald'' \<longrightarrow> role w = admin" for w
    proof (cases "username w = ''prahald''")
      case True
      with that u have "w \<in> set (handleEditUser users w)"
        by (auto simp: handleEditUser_def image_iff intro!: bexI [of _ u])
      with True that show ?thesis
        by (auto simp: hasBootstrapAdmin_def)
    next
      case False
      with u have "u \<in> set (handleEditUser users w)"
        by (auto simp: handleEditUser_def image_iff intro!: bexI [of _ u])
      with u show ?thesis
        by (auto simp: hasBootstrapAdmin_def)
    qed
    from assms(2) SubmitUser
    have k: "editingUser f \<noteq> None \<and> form_username f = ''prahald'' \<longrightarrow> form_role f = admin"
      by (simp add: editsKeepBootstrapRole_def)
    show ?thesis
    proof (cases "handleUserSubmit users f")
      case (Inl e)
      with True SubmitUser assms(1) show ?thesis by (simp add: panelStep_def)
    next
      case (Inr users')
      then have "hasBootstrapAdmin users'"
        using k add edit
        by (auto simp: handleUserSubmit_def Let_def split: if_splits)
      with True SubmitUser Inr show ?thesis by (simp add: panelStep_def)
    qed
  next
    case (ClickDelete name)
    with True u show ?thesis
      by (auto simp: panelStep_def handleDeleteUser_def deleteOffered_def hasBootstrapAdmin_def)
  qed
qed

lemma panelRun_keeps_username:
  "\<exists>u \<in> set users. username u = ''prahald'' \<Longrightarrow>
     \<exists>u \<in> set (panelRun cu users ops). username u = ''prahald''"
  unfolding panelRun_def
  by (induction ops arbitrary: users) (simp_all add: panelStep_keeps_username)

lemma editsKeepBootstrapRole_Cons:
  "editsKeepBootstrapRole (op # ops) \<longleftrightarrow> editsKeepBootstrapRole [op] \<and> editsKeepBootstrapRole ops"
  by (simp add: editsKeepBootstrapRole_def)

lemma panelRun_keeps_admin:
  "hasBootstrapAdmin users \<Longrightarrow> editsKeepBootstrapRole ops \<Longrightarrow>
     hasBootstrapAdmin (panelRun cu users ops)"
  unfolding panelRun_def
proof (induction ops arbitrary: users)
  case Nil
  then show ?case by simp
next
  case (Cons op ops)
  from Cons.prems(2) have "editsKeepBootstrapRole [op]" "editsKeepBootstrapRole ops"
    using editsKeepBootstrapRole_Cons [of op ops] by simp_all
  with Cons.prems(1) Cons.IH [of "panelStep cu users op"] show ?case
    by (simp add: panelStep_keeps_admin)
qed

text \<open>
  C8, amended. Starting from a user list that holds the bootstrap admin, every sequence
  of panel operations (submitting the user form to add or to edit, clicking a delete
  button that the table offers) leaves a user with the bootstrap user name in the list:
  the table offers no delete button for that name. The user still has the admin role
  when no submitted edit of that user name carries another role. (An edit of the
  bootstrap user may set the teacher role, which is why the claim does not hold for
  every sequence.)
\<close>

theorem bootstrap_admin_kept:
  assumes "hasBootstrapAdmin users"
  shows "(\<exists>u \<in> set (panelRun currentUser users ops). username u = ''prahald'') \<and>
         (editsKeepBootstrapRole ops \<longrightarrow> hasBootstrapAdmin (panelRun currentUser users ops))"
proof -
  from assms have "\<exists>u \<in> set users. username u = ''prahald''"
    by (auto simp: hasBootstrapAdmin_def)
  then show ?thesis
    using assms by (simp add: panelRun_keeps_username panelRun_keeps_admin)
qed

theorem bootstrap_admin_kept_witness:
  "hasBootstrapAdmin [SUPER_ADMIN] \<and> editsKeepBootstrapRole exampleOps \<and>
   hasBootstrapAdmin (panelRun SUPER_ADMIN [SUPER_ADMIN] exampleOps)"
proof -
  have h: "hasBootstrapAdmin [SUPER_ADMIN]"
    by (simp add: hasBootstrapAdmin_def SUPER_ADMIN_def)
  have e: "editsKeepBootstrapRole exampleOps"
    by (simp add: editsKeepBootstrapRole_def exampleOps_def)
  from h e show ?thesis
    using bootstrap_admin_kept [OF h, of SUPER_ADMIN exampleOps] by simp
qed

text \<open>
  C8 as stated fails: clicking Edit on the bootstrap admin, choosing the teacher role
  with a class and submitting leaves no user with the bootstrap name and the admin role.
\<close>

theorem bootstrap_admin_counterexample:
  "role SUPER_ADMIN = admin \<and>
   panelRun SUPER_ADMIN [SUPER_ADMIN] [SubmitUser demoteForm]
     = [SUPER_ADMIN\<lparr>role := teacher, assignedClass := Some ''10-A''\<rparr>] \<and>
   \<not> hasBootstrapAdmin (panelRun SUPER_ADMIN [SUPER_ADMIN] [SubmitUser demoteForm])"
  by (simp add: panelRun_def panelStep_def demoteForm_def handleEditClick_def SUPER_ADMIN_def
      handleUserSubmit_def handleEditUser_def truthy_def hasBootstrapAdmin_def)

section \<open>Properties of the analyzer request\<close>

lemma foldl_pushStudent:
  "foldl pushStudent parts students =
     parts @ concat (map (\<lambda>s. [Text (''Student ID: '' @ student_id s @ '' - Name: '' @ student_name s),
                                InlineData ''image/jpeg'' (cleanBase64 (photoUrl s))]) students)"
  by (induction students arbitrary: parts) (simp_all add: pushStudent_def)

lemma requestParts_concat:
  "requestParts frame students =
     targetParts frame @
     concat (map (\<lambda>s. [Text (''Student ID: '' @ student_id s @ '' - Name: '' @ student_name s),
                        InlineData ''image/jpeg'' (cleanBase64 (photoUrl s))])
               (activeStudents students)) @
     [finalPart]"
  by (simp add: requestParts_def foldl_pushStudent)

lemma activeStudents_cap:
  "activeStudents students = (if 5 < length students then take 5 students else students)"
  by (simp add: activeStudents_def)

text \<open>
  C9. Of a reference pool of more than 5 students only the first 5, in the order of the
  list, are forwarded to the analyzer; of a pool of at most 5 every student is. For a
  pool that is not empty, \<^verbatim>\<open>analyzeFrame\<close> calls the service once, and the request
  that the service receives is the target image, then for each forwarded student, in
  order, a text with the student's id and name and the student's reference image, then
  the final instruction; the answer of the service to that request is what
  \<^verbatim>\<open>analyzeFrame\<close> returns. For an empty pool the service is not called.
\<close>

theorem reference_pool_cap:
  "(5 < length registeredStudents \<longrightarrow>
      activeStudents registeredStudents = take 5 registeredStudents \<and>
      length (activeStudents registeredStudents) = 5) \<and>
   (length registeredStudents \<le> 5 \<longrightarrow> activeStudents registeredStudents = registeredStudents) \<and>
   (registeredStudents \<noteq> [] \<longrightarrow>
      analyzeFrame generateContent frame registeredStudents =
        (case generateContent
                (targetParts frame @
                 concat (map (\<lambda>s. [Text (''Student ID: '' @ student_id s @ '' - Name: '' @ student_name s),
                                    InlineData ''image/jpeg'' (cleanBase64 (photoUrl s))])
                           (if 5 < length registeredStudents then take 5 registeredStudents
                            else registeredStudents)) @
                 [finalPart]) of
           None \<Rightarrow> Inl FailedToAnalyzeFrame
         | Some result \<Rightarrow> Inr result)) \<and>
   (registeredStudents = [] \<longrightarrow>
      analyzeFrame generateContent frame registeredStudents = Inr noStudentsResult)"
proof (intro conjI impI)
  assume "5 < length registeredStudents"
  then show "activeStudents registeredStudents = take 5 registeredStudents"
    and "length (activeStudents registeredStudents) = 5"
    by (simp_all add: activeStudents_def)
next
  assume "length registeredStudents \<le> 5"
  then show "activeStudents registeredStudents = registeredStudents"
    by (simp add: activeStudents_def)
next
  assume "registeredStudents \<noteq> []"
  then show "analyzeFrame generateContent frame registeredStudents =
        (case generateContent
                (targetParts frame @
                 concat (map (\<lambda>s. [Text (''Student ID: '' @ student_id s @ '' - Name: '' @ student_name s),
                                    InlineData ''image/jpeg'' (cleanBase64 (photoUrl s))])
                           (if 5 < length registeredStudents then take 5 registeredStudents
                            else registeredStudents)) @
                 [finalPart]) of
           None \<Rightarrow> Inl FailedToAnalyzeFrame
         | Some result \<Rightarrow> Inr result)"
    unfolding analyzeFrame_def requestParts_concat activeStudents_cap by simp
next
  assume "registeredStudents = []"
  then show "analyzeFrame generateContent frame registeredStudents = Inr noStudentsResult"
    by (simp add: analyzeFrame_def)
qed

theorem reference_pool_cap_witness:
  "5 < length sixStudents \<and>
   activeStudents sixStudents = butlast sixStudents \<and>
   length [mkStudent ''S1'' ''Asha'' ''10-A''] \<le> 5 \<and>
   activeStudents [mkStudent ''S1'' ''Asha'' ''10-A''] = [mkStudent ''S1'' ''Asha'' ''10-A''] \<and>
   analyzeFrame
       (\<lambda>parts. if parts =
           [Text ''TARGET IMAGE (Current Camera Feed):'', InlineData ''image/jpeg'' ''QUJD'',
            Text ''REFERENCE IMAGES (Registered Students):'',
            Text ''Student ID: S1 - Name: Asha'', InlineData ''image/jpeg'' ''AAAA'', finalPart]
         then Some (mkVerdict (Some ''S1'') True) else None)
       ''data:image/jpeg;base64,QUJD'' [mkStudent ''S1'' ''Asha'' ''10-A'']
     = Inr (mkVerdict (Some ''S1'') True)"
proof -
  let ?g = "\<lambda>parts. if parts =
           [Text ''TARGET IMAGE (Current Camera Feed):'', InlineData ''image/jpeg'' ''QUJD'',
            Text ''REFERENCE IMAGES (Registered Students):'',
            Text ''Student ID: S1 - Name: Asha'', InlineData ''image/jpeg'' ''AAAA'', finalPart]
         then Some (mkVerdict (Some ''S1'') True) else None"
  have six: "5 < length sixStudents"
    by (simp add: sixStudents_def)
  have t: "take 5 sixStudents = butlast sixStudents"
    by (simp add: sixStudents_def)
  have one: "length [mkStudent ''S1'' ''Asha'' ''10-A''] \<le> 5"
      "[mkStudent ''S1'' ''Asha'' ''10-A''] \<noteq> []"
    by simp_all
  have p: "targetParts ''data:image/jpeg;base64,QUJD'' =
     [Text ''TARGET IMAGE (Current Camera Feed):'', InlineData ''image/jpeg'' ''QUJD'',
      Text ''REFERENCE IMAGES (Registered Students):'']"
    by (simp add: targetParts_def cleanBase64_def truthy_def)
  have q: "student_id (mkStudent ''S1'' ''Asha'' ''10-A'') = ''S1''"
      "student_name (mkStudent ''S1'' ''Asha'' ''10-A'') = ''Asha''"
      "cleanBase64 (photoUrl (mkStudent ''S1'' ''Asha'' ''10-A'')) = ''AAAA''"
    by (simp_all add: mkStudent_def cleanBase64_def truthy_def)
  from six t one show ?thesis
    using reference_pool_cap [of sixStudents]
      reference_pool_cap [of "[mkStudent ''S1'' ''Asha'' ''10-A'']" ?g "''data:image/jpeg;base64,QUJD''"]
    by (simp add: p q)
qed

section \<open>Properties of the verdict interpretation\<close>

lemma find_resolves:
  "(\<exists>s \<in> set students. Some (student_id s) = m) \<Longrightarrow>
     \<exists>student. find (\<lambda>s. Some (student_id s) = m) students = Some student \<and>
       student \<in> set students \<and> Some (student_id student) = m"
  by (induction students) auto

lemma find_unresolved:
  "(\<forall>s \<in> set students. Some (student_id s) \<noteq> m) \<Longrightarrow>
     find (\<lambda>s. Some (student_id s) = m) students = None"
  by (simp add: find_None_iff)

lemma processResult_no_match:
  "matchId result = None \<or> (\<forall>s \<in> set students. Some (student_id s) \<noteq> matchId result) \<Longrightarrow>
     fst (processResult clk students result) = None"
  by (auto simp: processResult_def truthy_opt_def find_unresolved)

lemma processResult_match:
  assumes ids: "\<forall>s \<in> set students. truthy (student_id s)"
    and res: "\<exists>s \<in> set students. Some (student_id s) = matchId result"
  shows "\<exists>student \<in> set students. Some (student_id student) = matchId result \<and>
           fst (processResult clk students result) =
             Some (if isRealPerson result then presentRecord clk student result
                   else proxyRecord clk student result)"
proof -
  from find_resolves [OF res] obtain student
    where f: "find (\<lambda>s. Some (student_id s) = matchId result) students = Some student"
      and m: "student \<in> set students" "Some (student_id student) = matchId result"
    by blast
  from ids m(1) have "truthy (student_id student)"
    by blast
  with m(2) have "truthy_opt (matchId result)"
    by (cases "matchId result") (simp_all add: truthy_opt_def)
  with f have "fst (processResult clk students result) =
      Some (if isRealPerson result then presentRecord clk student result
            else proxyRecord clk student result)"
    by (simp add: processResult_def)
  with m show ?thesis by blast
qed

text \<open>
  C2. On a reference set whose student ids are non-empty strings (the registry creates
  every id from the clock), the interpretation of a verdict hands over: no event when
  \<open>matchId\<close> is null or is the id of no student of the set; when it is the id of a
  student of the set and \<open>isRealPerson\<close> holds, one event for that id with status
  PRESENT, the verdict's confidence and emotion, and the description as notes; when it
  is the id of a student of the set and \<open>isRealPerson\<close> does not hold, one event for
  that id with status PROXY_ATTEMPT whose notes are "Spoofing Detected: " followed by
  the description.
\<close>

theorem verdict_table:
  assumes "\<forall>s \<in> set students. truthy (student_id s)"
  shows
    "(matchId result = None \<or> (\<forall>s \<in> set students. Some (student_id s) \<noteq> matchId result)
        \<longrightarrow> fst (processResult clk students result) = None) \<and>
     ((\<exists>s \<in> set students. Some (student_id s) = matchId result) \<and> isRealPerson result
        \<longrightarrow> (\<exists>ev. fst (processResult clk students result) = Some ev \<and>
               Some (studentId ev) = matchId result \<and> status ev = PRESENT \<and>
               confidence ev = result_confidence result \<and>
               emotion ev = Some (result_emotion result) \<and>
               record_notes ev = Some (description result))) \<and>
     ((\<exists>s \<in> set students. Some (student_id s) = matchId result) \<and> \<not> isRealPerson result
        \<longrightarrow> (\<exists>ev. fst (processResult clk students result) = Some ev \<and>
               Some (studentId ev) = matchId result \<and> status ev = PROXY_ATTEMPT \<and>
               record_notes ev = Some (''Spoofing Detected: '' @ description result)))"
proof (intro conjI impI)
  assume "matchId result = None \<or> (\<forall>s \<in> set students. Some (student_id s) \<noteq> matchId result)"
  then show "fst (processResult clk students result) = None"
    by (rule processResult_no_match)
next
  assume a: "(\<exists>s \<in> set students. Some (student_id s) = matchId result) \<and> isRealPerson result"
  with processResult_match [OF assms, of result clk] obtain student
    where "Some (student_id student) = matchId result"
      and "fst (processResult clk students result) = Some (presentRecord clk student result)"
    by auto
  then show "\<exists>ev. fst (processResult clk students result) = Some ev \<and>
               Some (studentId ev) = matchId result \<and> status ev = PRESENT \<and>
               confidence ev = result_confidence result \<and>
               emotion ev = Some (result_emotion result) \<and>
               record_notes ev = Some (description result)"
    by (simp add: presentRecord_def)
next
  assume a: "(\<exists>s \<in> set students. Some (student_id s) = matchId result) \<and> \<not> isRealPerson result"
  with processResult_match [OF assms, of result clk] obtain student
    where "Some (student_id student) = matchId result"
      and "fst (processResult clk students result) = Some (proxyRecord clk student result)"
    by auto
  then show "\<exists>ev. fst (processResult clk students result) = Some ev \<and>
               Some (studentId ev) = matchId result \<and> status ev = PROXY_ATTEMPT \<and>
               record_notes ev = Some (''Spoofing Detected: '' @ description result)"
    by (simp add: proxyRecord_def)
qed

theorem verdict_table_witness:
  "fst (processResult exampleClock [mkStudent ''S101'' ''Asha'' ''7-C''] (mkVerdict None True)) = None \<and>
   fst (processResult exampleClock [mkStudent ''S101'' ''Asha'' ''7-C''] (mkVerdict (Some ''S999'') True)) = None \<and>
   (\<exists>ev. fst (processResult exampleClock [mkStudent ''S101'' ''Asha'' ''7-C'']
                 (mkVerdict (Some ''S101'') True)) = Some ev \<and>
         studentId ev = ''S101'' \<and> status ev = PRESENT \<and> confidence ev = 92 / 100 \<and>
         emotion ev = Some ''Focused'' \<and> record_notes ev = Some ''clear match'') \<and>
   (\<exists>ev. fst (processResult exampleClock [mkStudent ''S101'' ''Asha'' ''7-C'']
                 (mkVerdict (Some ''S101'') False)) = Some ev \<and>
         studentId ev = ''S101'' \<and> status ev = PROXY_ATTEMPT \<and>
         record_notes ev = Some ''Spoofing Detected: clear match'')"
proof -
  let ?st = "[mkStudent ''S101'' ''Asha'' ''7-C'']"
  have ids: "\<forall>s \<in> set ?st. truthy (student_id s)"
    by (simp add: mkStudent_def truthy_def)
  show ?thesis
    using verdict_table [OF ids, of "mkVerdict None True" exampleClock]
      verdict_table [OF ids, of "mkVerdict (Some ''S999'') True" exampleClock]
      verdict_table [OF ids, of "mkVerdict (Some ''S101'') True" exampleClock]
      verdict_table [OF ids, of "mkVerdict (Some ''S101'') False" exampleClock]
    by (simp add: mkVerdict_def mkStudent_def)
qed

text \<open>
  C7, amended. A verdict whose \<open>matchId\<close> is null or empty produces no event and
  logs the verdict's description. A verdict whose \<open>matchId\<close> is a non-empty string
  that is the id of no student of the reference set produces no event either and raises
  nothing, but logs nothing: the scan ends with the ledger and the log as they were, the
  verdict stored as the last result and the processing flag cleared.
\<close>

theorem unknown_match:
  "(\<not> truthy_opt (matchId result) \<longrightarrow>
      processResult clk students result = (None, Some (infoSign @ '' '' @ description result))) \<and>
   (truthy_opt (matchId result) \<and> (\<forall>s \<in> set students. Some (student_id s) \<noteq> matchId result) \<longrightarrow>
      processResult clk students result = (None, None) \<and>
      handleScan_finish parse clk students records (Inr result) app =
        app\<lparr>app_scanner := (app_scanner app)\<lparr>lastScanResult := Some result, isProcessing := False\<rparr>\<rparr>)"
proof (intro conjI impI)
  assume "\<not> truthy_opt (matchId result)"
  then show "processResult clk students result = (None, Some (infoSign @ '' '' @ description result))"
    by (simp add: processResult_def)
next
  assume a: "truthy_opt (matchId result) \<and> (\<forall>s \<in> set students. Some (student_id s) \<noteq> matchId result)"
  then show p: "processResult clk students result = (None, None)"
    by (simp add: processResult_def find_unresolved)
  show "handleScan_finish parse clk students records (Inr result) app =
        app\<lparr>app_scanner := (app_scanner app)\<lparr>lastScanResult := Some result, isProcessing := False\<rparr>\<rparr>"
    by (simp add: handleScan_finish_def p)
qed

theorem unknown_match_witness:
  "processResult exampleClock [mkStudent ''S101'' ''Asha'' ''7-C''] (mkVerdict (Some ''S999'') True)
     = (None, None) \<and>
   handleScan_finish exampleParse exampleClock [mkStudent ''S101'' ''Asha'' ''7-C''] []
       (Inr (mkVerdict (Some ''S999'') True)) scanningApp
     = scanningApp\<lparr>app_scanner := (app_scanner scanningApp)
         \<lparr>lastScanResult := Some (mkVerdict (Some ''S999'') True), isProcessing := False\<rparr>\<rparr> \<and>
   processResult exampleClock [mkStudent ''S101'' ''Asha'' ''7-C''] (mkVerdict None True)
     = (None, Some (infoSign @ '' clear match''))"
proof -
  let ?st = "[mkStudent ''S101'' ''Asha'' ''7-C'']"
  have t: "truthy_opt (matchId (mkVerdict (Some ''S999'') True)) \<and>
           (\<forall>s \<in> set ?st. Some (student_id s) \<noteq> matchId (mkVerdict (Some ''S999'') True))"
    by (simp add: truthy_opt_def truthy_def mkVerdict_def mkStudent_def)
  have n: "\<not> truthy_opt (matchId (mkVerdict None True))"
    by (simp add: truthy_opt_def mkVerdict_def)
  have d: "description (mkVerdict None True) = ''clear match''"
    by (simp add: mkVerdict_def)
  from t n show ?thesis
    using unknown_match [of "mkVerdict (Some ''S999'') True" exampleClock ?st exampleParse "[]" scanningApp]
      unknown_match [of "mkVerdict None True" exampleClock ?st]
    by (simp add: d)
qed

text \<open>
  C7 as stated fails: after a verdict with the unknown id S999 the log holds only the
  line written when the scan began, while the same verdict with a null \<open>matchId\<close>
  adds the description to the log.
\<close>

theorem unknown_match_counterexample:
  "logs (app_scanner (handleScan_finish exampleParse exampleClock [mkStudent ''S101'' ''Asha'' ''7-C''] []
       (Inr (mkVerdict (Some ''S999'') True)) scanningApp))
     = [''Scanning frame...''] \<and>
   logs (app_scanner (handleScan_finish exampleParse exampleClock [mkStudent ''S101'' ''Asha'' ''7-C''] []
       (Inr (mkVerdict None True)) scanningApp))
     = [infoSign @ '' clear match'', ''Scanning frame...'']"
  by (simp add: handleScan_finish_def processResult_def truthy_opt_def truthy_def mkVerdict_def
      mkStudent_def scanningApp_def addLog_def)

section \<open>Properties of the scanner\<close>

lemma handleScan_start_busy:
  "isProcessing rendered \<Longrightarrow> handleScan_start rendered capture students sc = (sc, None)"
  by (simp add: handleScan_start_def)

lemma handleScan_start_begins:
  assumes "videoRef_current sc" "canvasRef_current sc" "\<not> isProcessing rendered"
  shows "handleScan_start rendered (Some frame) students sc
           = (addLog ''Scanning frame...'' (sc\<lparr>isProcessing := True\<rparr>), Some (frame, students))"
    and "isProcessing (fst (handleScan_start rendered (Some frame) students sc))"
  using assms by (simp_all add: handleScan_start_def addLog_def)

lemma handleScan_finish_idle:
  "\<not> isProcessing (app_scanner (handleScan_finish parse clk students records outcome app))"
  by (simp add: handleScan_finish_def addLog_def Let_def split: sum.splits prod.splits option.splits)

text \<open>
  A handler of a render that saw the scan in progress does nothing, from the button or
  from the timer: the guard works once the component has rendered again.
\<close>

lemma rendered_busy_no_scan:
  assumes "isProcessing rendered"
  shows "scanStart rendered capture students app = (app, None)"
    and "clickScan rendered capture students app = (app, None)"
    and "autoTick rendered capture students app = (app, None)"
  using assms
  by (simp_all add: scanStart_def clickScan_def autoTick_def autoTimerArmed_def handleScan_start_busy)

text \<open>
  C3. The code at the failing input. The component has rendered the idle scanner, with
  auto mode on. A tick of the timer starts a scan: the state is now that of a scan in
  progress, with one analysis started. Before the component renders again, a click on
  the scan button runs the handler of the same render, whose guard still reads the idle
  flag: the click is not a no-op, it adds a log line and starts a second analysis while
  the first is in flight.
\<close>

theorem second_scan_started:
  "autoTick idleScanner (Some ''data:image/jpeg;base64,QUJD'') [mkStudent ''S101'' ''Asha'' ''7-C'']
       idleApp
     = (scanningApp, Some (''data:image/jpeg;base64,QUJD'', [mkStudent ''S101'' ''Asha'' ''7-C''])) \<and>
   isProcessing (app_scanner scanningApp) \<and>
   clickScan idleScanner (Some ''data:image/jpeg;base64,QUJD'') [mkStudent ''S101'' ''Asha'' ''7-C'']
       scanningApp
     = (scanningApp\<lparr>app_scanner :=
          (app_scanner scanningApp)\<lparr>logs := [''Scanning frame...'', ''Scanning frame...'']\<rparr>\<rparr>,
        Some (''data:image/jpeg;base64,QUJD'', [mkStudent ''S101'' ''Asha'' ''7-C'']))"
  by (simp add: autoTick_def clickScan_def autoTimerArmed_def scanStart_def handleScan_start_def
      idleApp_def idleScanner_def scanningApp_def addLog_def)

section \<open>Properties of the monthly report\<close>

lemma inMonth_dateInMonth:
  "(\<forall>ymd. 0 \<le> tz ymd) \<Longrightarrow> inMonth tz year month r \<longleftrightarrow> dateInMonth year month (date r)"
  by (auto simp: inMonth_def dateInMonth_def localYearMonth_def split: option.splits)

lemma uniqueDays_card:
  assumes "\<forall>ymd. 0 \<le> tz ymd"
  shows "uniqueDays tz year month records = int (card (scannedDays year month records))"
proof -
  have "length (remdups (map date (monthRecords tz year month records)))
          = card (set (map date (monthRecords tz year month records)))"
    by (simp only: length_remdups_card_conv)
  also have "set (map date (monthRecords tz year month records)) = scannedDays year month records"
    using assms by (auto simp: monthRecords_def scannedDays_def inMonth_dateInMonth)
  finally show ?thesis
    by (simp add: uniqueDays_def)
qed

lemma totalDays_card:
  "(\<forall>ymd. 0 \<le> tz ymd) \<Longrightarrow> totalDays tz year month records = int (card (scannedDays year month records))"
  by (simp add: totalDays_def uniqueDays_card)

lemma present_count:
  assumes "\<forall>ymd. 0 \<le> tz ymd"
  shows "present (studentStat tz year month records student)
           = int (length (presentEvents year month records student))"
proof -
  have "filter (\<lambda>r. status r = PRESENT)
          (filter (\<lambda>r. studentId r = student_id student)
             (filter (inMonth tz year month) records))
        = presentEvents year month records student"
    using assms
    by (simp add: presentEvents_def inMonth_dateInMonth conj_commute conj_left_commute)
  then show ?thesis
    by (simp add: studentStat_def monthRecords_def Let_def)
qed

lemma absent_derived:
  "absent (studentStat tz year month records student)
     = max 0 (totalDays tz year month records
              - present (studentStat tz year month records student))"
  by (simp add: studentStat_def Let_def max_def)

lemma monthlyStats_rows:
  "monthlyStats toLowerCase tz monthly year month searchTerm records students
     = map (studentStat tz year month records)
         (filter (\<lambda>s. sublist (toLowerCase searchTerm) (toLowerCase (student_name s))) students)"
proof -
  have "stat_student (studentStat tz year month records s) = s" for s
    by (simp add: studentStat_def Let_def)
  then show ?thesis
    by (simp add: monthlyStats_def filter_map comp_def)
qed

text \<open>
  C6, amended. Where local time is not behind UTC and every date of the ledger is a
  date as the scanner writes it, the report of an actor, for every student, year and
  month: the total of scanned days is the number of distinct dates falling in that
  month among the records that the actor may see (for an admin the whole ledger, for a
  teacher the records of the students of the assigned class), whatever their student;
  the present count of the student's row is the number of that student's PRESENT records
  of that month among them; the absent count of the row is the maximum of 0 and the
  difference of the two. The report holds one such row for each student that the actor
  may see and whose name matches the search term, in the order of the registry.
\<close>

theorem monthly_aggregation:
  assumes "\<forall>ymd. 0 \<le> tz ymd"
    and "\<forall>r \<in> set ledger. parseIsoDate (date r) \<noteq> None"
    and "recs = filteredRecords (Some actor) students ledger"
  shows
    "totalDays tz year month recs = int (card (scannedDays year month recs)) \<and>
     present (studentStat tz year month recs student)
       = int (length (presentEvents year month recs student)) \<and>
     absent (studentStat tz year month recs student)
       = max 0 (totalDays tz year month recs - present (studentStat tz year month recs student)) \<and>
     renderReports toLowerCase tz (Some actor) students ledger monthly year month searchTerm
       = map (studentStat tz year month recs)
           (filter (\<lambda>s. sublist (toLowerCase searchTerm) (toLowerCase (student_name s)))
              (filteredStudents (Some actor) students)) \<and>
     (role actor = admin \<longrightarrow> recs = ledger)"
proof (intro conjI impI)
  show "totalDays tz year month recs = int (card (scannedDays year month recs))"
    using assms(1) by (rule totalDays_card)
  show "present (studentStat tz year month recs student)
          = int (length (presentEvents year month recs student))"
    using assms(1) by (rule present_count)
  show "absent (studentStat tz year month recs student)
          = max 0 (totalDays tz year month recs - present (studentStat tz year month recs student))"
    by (rule absent_derived)
  show "renderReports toLowerCase tz (Some actor) students ledger monthly year month searchTerm
          = map (studentStat tz year month recs)
              (filter (\<lambda>s. sublist (toLowerCase searchTerm) (toLowerCase (student_name s)))
                 (filteredStudents (Some actor) students))"
    by (simp add: renderReports_def monthlyStats_rows assms(3))
next
  assume "role actor = admin"
  with assms(3) show "recs = ledger"
    by (simp add: filteredRecords_def)
qed

lemma march_dates:
  "parseIsoDate ''2024-03-04'' = Some (2024, 3, 4)"
  "parseIsoDate ''2024-03-05'' = Some (2024, 3, 5)"
  "parseIsoDate ''2024-03-06'' = Some (2024, 3, 6)"
  "parseIsoDate ''2024-04-01'' = Some (2024, 4, 1)"
  by (simp_all add: parseIsoDate_def digit_def daysInMonth_def)

theorem monthly_aggregation_witness:
  "totalDays india 2024 3 marchLedger = 3 \<and>
   present (studentStat india 2024 3 marchLedger (mkStudent ''S101'' ''Asha'' ''7-C'')) = 2 \<and>
   absent (studentStat india 2024 3 marchLedger (mkStudent ''S101'' ''Asha'' ''7-C'')) = 1"
proof -
  let ?s = "mkStudent ''S101'' ''Asha'' ''7-C''"
  have tz: "\<forall>ymd. 0 \<le> india ymd"
    by (simp add: india_def)
  have wf: "\<forall>r \<in> set marchLedger. parseIsoDate (date r) \<noteq> None"
    by (simp add: marchLedger_def mkEvent_def march_dates)
  have v: "marchLedger = filteredRecords (Some SUPER_ADMIN) [?s] marchLedger"
    by (simp add: filteredRecords_def SUPER_ADMIN_def)
  have "scannedDays 2024 3 marchLedger = {''2024-03-04'', ''2024-03-05'', ''2024-03-06''}"
    by (auto simp: scannedDays_def dateInMonth_def marchLedger_def mkEvent_def march_dates)
  then have t: "card (scannedDays 2024 3 marchLedger) = 3"
    by simp
  have p: "length (presentEvents 2024 3 marchLedger ?s) = 2"
    by (simp add: presentEvents_def dateInMonth_def marchLedger_def mkEvent_def mkStudent_def
        march_dates)
  from t p show ?thesis
    using monthly_aggregation [OF tz wf v, of 2024 3 ?s]
    by simp
qed

text \<open>
  C6 as stated fails in two ways. For a teacher: the ledger has two scanned days in
  March 2024, one of them for a student of another class, but the report of the teacher
  of class 10-A counts one scanned day, so that the student present on that day has no
  absent day. And where local time is behind UTC: a record dated the first of March is
  read as the last day of February, so that the report of March counts no scanned day
  and the report of February counts one.
\<close>

theorem monthly_aggregation_counterexample:
  "card (scannedDays 2024 3 twoClassLedger) = 2 \<and>
   totalDays india 2024 3 (filteredRecords (Some (mkTeacher (Some ''10-A''))) twoClasses twoClassLedger)
     = 1 \<and>
   map absent (renderReports (\<lambda>s. s) india (Some (mkTeacher (Some ''10-A''))) twoClasses twoClassLedger
                 monthly 2024 3 [])
     = [0] \<and>
   card (scannedDays 2024 3 [mkEvent ''S101'' ''2024-03-01'' ''10:00:00'']) = 1 \<and>
   totalDays newYork 2024 3 [mkEvent ''S101'' ''2024-03-01'' ''10:00:00''] = 0 \<and>
   totalDays newYork 2024 2 [mkEvent ''S101'' ''2024-03-01'' ''10:00:00''] = 1"
proof -
  have "scannedDays 2024 3 twoClassLedger = {''2024-03-04'', ''2024-03-05''}"
    by (auto simp: scannedDays_def dateInMonth_def twoClassLedger_def mkEvent_def march_dates)
  then have c: "card (scannedDays 2024 3 twoClassLedger) = 2"
    by simp
  have f: "filteredRecords (Some (mkTeacher (Some ''10-A''))) twoClasses twoClassLedger
             = [mkEvent ''S1'' ''2024-03-04'' ''10:00:00'']"
    by (simp add: filteredRecords_def mkTeacher_def truthy_opt_def truthy_def twoClasses_def
        twoClassLedger_def mkStudent_def mkEvent_def)
  have g: "filteredStudents (Some (mkTeacher (Some ''10-A''))) twoClasses
             = [mkStudent ''S1'' ''Asha'' ''10-A'']"
    by (simp add: filteredStudents_def mkTeacher_def truthy_opt_def truthy_def twoClasses_def
        mkStudent_def)
  have t: "totalDays india 2024 3 [mkEvent ''S1'' ''2024-03-04'' ''10:00:00''] = 1"
    by (simp add: totalDays_def uniqueDays_def monthRecords_def inMonth_def localYearMonth_def
        mkEvent_def march_dates)
  have a: "absent (studentStat india 2024 3 [mkEvent ''S1'' ''2024-03-04'' ''10:00:00'']
             (mkStudent ''S1'' ''Asha'' ''10-A'')) = 0"
    by (simp add: studentStat_def Let_def t)
       (simp add: monthRecords_def inMonth_def localYearMonth_def mkEvent_def mkStudent_def
          march_dates)
  have p: "parseIsoDate ''2024-03-01'' = Some (2024, 3, 1)"
    by (simp add: parseIsoDate_def digit_def daysInMonth_def)
  have "scannedDays 2024 3 [mkEvent ''S101'' ''2024-03-01'' ''10:00:00''] = {''2024-03-01''}"
    by (auto simp: scannedDays_def dateInMonth_def mkEvent_def p)
  then have w: "card (scannedDays 2024 3 [mkEvent ''S101'' ''2024-03-01'' ''10:00:00'']) = 1"
    by simp
  have n: "totalDays newYork 2024 3 [mkEvent ''S101'' ''2024-03-01'' ''10:00:00''] = 0"
      "totalDays newYork 2024 2 [mkEvent ''S101'' ''2024-03-01'' ''10:00:00''] = 1"
    by (simp_all add: totalDays_def uniqueDays_def monthRecords_def inMonth_def localYearMonth_def
        newYork_def mkEvent_def p)
  from c w n show ?thesis
    by (simp add: f g t renderReports_def monthlyStats_def a)
qed

end
